theory Spec2Isabelle
  imports Complex_Main
begin

section \<open>Lumina Design AI: the conversation orchestrator and the comparison slider\<close>

text \<open>
  A shallow embedding of \<^verbatim>\<open>src/App.tsx\<close>, \<^verbatim>\<open>src/services/geminiService.ts\<close> and
  \<^verbatim>\<open>src/components/CompareSlider.tsx\<close>.

  The React component \<^verbatim>\<open>App\<close> keeps its state in six \<^verbatim>\<open>useState\<close> cells; the service
  module keeps one module-level variable, \<^verbatim>\<open>chatSession\<close>. Both are fields of one record
  and every handler is a function from state to state. An \<^verbatim>\<open>async\<close> handler runs up to its
  first \<^verbatim>\<open>await\<close>, returns the request it issued together with what it will do when the
  request settles, and is resumed later by another function: one function per segment
  between two \<^verbatim>\<open>await\<close>s. Values a handler reads from its closure after an \<^verbatim>\<open>await\<close>
  (\<^verbatim>\<open>style\<close>, \<^verbatim>\<open>originalImage\<close>) are stored in the continuation, since they are the values of
  the render in which the handler was started; functional updates
  (\<^verbatim>\<open>setChatHistory(prev => ...)\<close>) read the state current at the time they run.
\<close>

subsection \<open>JavaScript strings, truthiness and \<^verbatim>\<open>Date.now().toString()\<close>\<close>

text \<open>
  Strings are Isabelle strings. A character stands for the UTF-16 code unit of the same
  value, so the model covers the strings whose code units are below 256. Among those,
  \<^verbatim>\<open>String.prototype.trim\<close> removes TAB, LF, VT, FF, CR, SPACE and NBSP (U+00A0) from both
  ends.
\<close>

definition isWhiteSpace :: "char \<Rightarrow> bool" where
  "isWhiteSpace c =
     (c = CHR 0x09 \<or> c = CHR 0x0A \<or> c = CHR 0x0B \<or> c = CHR 0x0C \<or> c = CHR 0x0D
      \<or> c = CHR 0x20 \<or> c = CHR 0xA0)"

definition trim :: "string \<Rightarrow> string" where
  "trim s = rev (dropWhile isWhiteSpace (rev (dropWhile isWhiteSpace s)))"

text \<open>\<^verbatim>\<open>!x\<close> for \<^verbatim>\<open>x: string\<close>: the empty string is falsy.\<close>

definition falsy :: "string \<Rightarrow> bool" where
  "falsy s = (s = [])"

text \<open>\<^verbatim>\<open>!x\<close> for \<^verbatim>\<open>x: string | null\<close> (or an optional string): \<^verbatim>\<open>null\<close>, \<^verbatim>\<open>undefined\<close> and
  the empty string are falsy.\<close>

definition truthy :: "string option \<Rightarrow> bool" where
  "truthy x = (case x of None \<Rightarrow> False | Some s \<Rightarrow> s \<noteq> [])"

definition digit :: "nat \<Rightarrow> char" where
  "digit d = ''0123456789'' ! d"

text \<open>\<^verbatim>\<open>n.toString()\<close> of a non-negative integer: its decimal digits.\<close>

fun toString :: "nat \<Rightarrow> string" where
  "toString n = (if n < 10 then [digit n] else toString (n div 10) @ [digit (n mod 10)])"

declare toString.simps [simp del]

subsection \<open>\<^verbatim>\<open>types.ts\<close>\<close>

text \<open>
  \<^verbatim>\<open>ChatMessage { id; role: 'user' | 'model'; text; isError? }\<close>. The fields \<^verbatim>\<open>id\<close> and
  \<^verbatim>\<open>text\<close> are \<open>msg_id\<close> and \<open>msg_text\<close> here; the optional \<^verbatim>\<open>isError\<close> is an option,
  \<open>None\<close> where the object literal leaves it out.
\<close>

datatype Role = User | Model

record ChatMessage =
  msg_id :: string
  role :: Role
  msg_text :: string
  isError :: "bool option"

text \<open>\<^verbatim>\<open>DesignStyle { id; name; prompt; previewColor }\<close>; \<^verbatim>\<open>id\<close> is \<open>style_id\<close> here.\<close>

record DesignStyle =
  style_id :: string
  name :: string
  prompt :: string
  previewColor :: string

definition STYLES :: "DesignStyle list" where
  "STYLES =
    [\<lparr>style_id = ''modern'', name = ''Modern'',
      prompt = ''Redesign this room in a sleek Modern style with minimalist furniture, clean lines, and neutral colors with blue accents.'',
      previewColor = ''#3b82f6''\<rparr>,
     \<lparr>style_id = ''scandi'', name = ''Scandinavian'',
      prompt = ''Redesign this room in Scandinavian style, light wood, cozy textures, white walls, airy atmosphere.'',
      previewColor = ''#14b8a6''\<rparr>,
     \<lparr>style_id = ''industrial'', name = ''Industrial'',
      prompt = ''Redesign this room in Industrial style, exposed brick, metal accents, leather furniture, raw finishes.'',
      previewColor = ''#64748b''\<rparr>,
     \<lparr>style_id = ''boho'', name = ''Bohemian'',
      prompt = ''Redesign this room in Bohemian style, plants, patterns, eclectic furniture, warm lighting, cozy rugs.'',
      previewColor = ''#f59e0b''\<rparr>,
     \<lparr>style_id = ''midcen'', name = ''Mid-Century'',
      prompt = ''Redesign this room in Mid-Century Modern style, teak wood, organic curves, retro colors, statement lighting.'',
      previewColor = ''#d97706''\<rparr>]"

subsection \<open>\<^verbatim>\<open>services/geminiService.ts\<close>\<close>

text \<open>
  A rejected promise or a thrown exception is an \<open>error\<close>; the result of an awaited call
  is \<open>error + 'a\<close>, with \<open>Inl\<close> the rejection.
\<close>

datatype error = Rejected string | TypeError

text \<open>
  A function call of the chat model's reply, and the \<^verbatim>\<open>toolCall\<close> the service copies it
  into (\<^verbatim>\<open>{ name: call.name, args: call.args }\<close>). \<^verbatim>\<open>args\<close> has type \<^verbatim>\<open>any\<close>; the declared tool
  \<^verbatim>\<open>updateRoomDesign\<close> requires its one string parameter \<^verbatim>\<open>visualDescription\<close>, so the
  arguments are a record holding that string. \<^verbatim>\<open>name\<close> is \<open>tool_name\<close> here.
\<close>

record ToolArgs =
  visualDescription :: string

record ToolCall =
  tool_name :: string
  args :: ToolArgs

text \<open>\<^verbatim>\<open>ChatResponse { text?; toolCall? }\<close>; \<^verbatim>\<open>text\<close> is \<open>reply_text\<close> here.\<close>

record ChatResponse =
  reply_text :: "string option"
  toolCall :: "ToolCall option"

text \<open>
  What \<^verbatim>\<open>chatSession.sendMessage\<close> resolves to, as far as the service reads it:
  \<^verbatim>\<open>result.functionCalls\<close> (possibly undefined) and \<^verbatim>\<open>result.response.text\<close>. The result is
  of type \<^verbatim>\<open>any\<close>: \<^verbatim>\<open>result.response\<close> may be undefined, and then reading its \<^verbatim>\<open>text\<close>
  throws a TypeError.
\<close>

record SdkResponse =
  response_text :: "string option"

record SdkResult =
  functionCalls :: "ToolCall list option"
  response :: "SdkResponse option"

text \<open>
  The module-level \<^verbatim>\<open>chatSession\<close>: \<^verbatim>\<open>null\<close>, or the object \<^verbatim>\<open>ai.chats.create\<close> returned. The
  model keeps what the session was created from (the mapped history) and the messages
  sent through it; the model name, the system instruction and the tool declaration are
  constants of the call and are left out.
\<close>

record ChatSession =
  created_history :: "(Role \<times> string) list"
  sent :: "string list"

text \<open>The requests that leave the program, each at an \<^verbatim>\<open>await\<close>.\<close>

datatype Request =
    GenerateReimaginedImage string string
      \<comment> \<open>\<^verbatim>\<open>generateReimaginedImage(originalImageBase64, prompt)\<close>\<close>
  | SendMessage string
      \<comment> \<open>\<^verbatim>\<open>chatSession.sendMessage({ message })\<close>\<close>

text \<open>
  \<^verbatim>\<open>sendMessageToAdvisor\<close> up to its \<^verbatim>\<open>await\<close>: the session is created from the history
  passed in when there is none, and the message is sent.
\<close>

definition sendMessageToAdvisor_start ::
  "string \<Rightarrow> ChatMessage list \<Rightarrow> ChatSession option \<Rightarrow> ChatSession option \<times> Request" where
  "sendMessageToAdvisor_start message history cs =
     (let session =
        (case cs of
           None \<Rightarrow> \<lparr>created_history = map (\<lambda>h. (role h, msg_text h)) history, sent = []\<rparr>
         | Some c \<Rightarrow> c)
      in (Some (session\<lparr>sent := sent session @ [message]\<rparr>), SendMessage message))"

text \<open>
  \<^verbatim>\<open>sendMessageToAdvisor\<close> after its \<^verbatim>\<open>await\<close>: a rejection is logged and rethrown; a
  result with a non-empty \<^verbatim>\<open>functionCalls\<close> becomes a \<^verbatim>\<open>toolCall\<close> reply from the first
  call; any other result becomes a text reply.
\<close>

definition sendMessageToAdvisor_result :: "error + SdkResult \<Rightarrow> error + ChatResponse" where
  "sendMessageToAdvisor_result outcome =
     (case outcome of
        Inl e \<Rightarrow> Inl e
      | Inr result \<Rightarrow>
          (case functionCalls result of
             Some (call # rest) \<Rightarrow>
               Inr \<lparr>reply_text = None,
                    toolCall = Some \<lparr>tool_name = tool_name call, args = args call\<rparr>\<rparr>
           | _ \<Rightarrow>
               (case response result of
                  None \<Rightarrow> Inl TypeError
                | Some r \<Rightarrow> Inr \<lparr>reply_text = response_text r, toolCall = None\<rparr>)))"

text \<open>\<^verbatim>\<open>resetChatSession\<close> sets the module variable to \<^verbatim>\<open>null\<close>; see \<open>reader_onload\<close>.\<close>

subsection \<open>\<^verbatim>\<open>App.tsx\<close>: the state\<close>

record App =
  originalImage :: "string option"
  generatedImage :: "string option"
  isGenerating :: bool
  chatHistory :: "ChatMessage list"
  chatInput :: string
  isChatLoading :: bool
  chatSession :: "ChatSession option"

text \<open>The state of the first render: the \<^verbatim>\<open>useState\<close> defaults, and no chat session.\<close>

definition initialApp :: App where
  "initialApp =
     \<lparr>originalImage = None, generatedImage = None, isGenerating = False, chatHistory = [],
      chatInput = [], isChatLoading = False, chatSession = None\<rparr>"

text \<open>What a suspended handler does when its request settles, with the values it closed over.\<close>

datatype Continuation =
    StyleAwaitImage DesignStyle
      \<comment> \<open>\<^verbatim>\<open>handleStyleSelect\<close> at line 68\<close>
  | ChatAwaitReply string
      \<comment> \<open>\<^verbatim>\<open>handleSendMessage\<close> at line 96, with the \<^verbatim>\<open>originalImage\<close> of its render\<close>
  | ChatAwaitImage
      \<comment> \<open>\<^verbatim>\<open>handleSendMessage\<close> at line 113\<close>

text \<open>
  The object literals of the turns: \<^verbatim>\<open>{ id: Date.now().toString(), role, text }\<close>, with
  \<^verbatim>\<open>isError: true\<close> where the source writes it. \<open>now\<close> is the value \<^verbatim>\<open>Date.now()\<close> returns
  at that place. \<open>appendTurn m\<close> is \<^verbatim>\<open>setChatHistory(prev => [...prev, m])\<close>.
\<close>

definition appendTurn :: "ChatMessage \<Rightarrow> App \<Rightarrow> App" where
  "appendTurn m s = s\<lparr>chatHistory := chatHistory s @ [m]\<rparr>"

definition modelTurn :: "nat \<Rightarrow> string \<Rightarrow> ChatMessage" where
  "modelTurn now t = \<lparr>msg_id = toString now, role = Model, msg_text = t, isError = None\<rparr>"

definition errorTurn :: "nat \<Rightarrow> string \<Rightarrow> ChatMessage" where
  "errorTurn now t = \<lparr>msg_id = toString now, role = Model, msg_text = t, isError = Some True\<rparr>"

definition userTurn :: "nat \<Rightarrow> string \<Rightarrow> ChatMessage" where
  "userTurn now t = \<lparr>msg_id = toString now, role = User, msg_text = t, isError = None\<rparr>"

subsection \<open>\<^verbatim>\<open>App.tsx\<close>: \<^verbatim>\<open>handleFileUpload\<close>\<close>

definition welcomeTurn :: ChatMessage where
  "welcomeTurn =
     \<lparr>msg_id = ''init'', role = Model,
      msg_text = ''Hi! I'm your AI Interior Design Consultant. Upload a photo of your room, select a style, or tell me how you'd like to reimagine your space!'',
      isError = None\<rparr>"

text \<open>\<^verbatim>\<open>reader.onload\<close>, lines 46 to 56; \<open>result\<close> is the data URL the reader produced.\<close>

definition reader_onload :: "string \<Rightarrow> App \<Rightarrow> App" where
  "reader_onload result s =
     s\<lparr>originalImage := Some result,
       generatedImage := None,
       chatHistory := [welcomeTurn],
       chatSession := None\<rparr>"

text \<open>
  \<^verbatim>\<open>handleFileUpload\<close>: nothing happens without a file. The file is given by the data URL
  \<^verbatim>\<open>readAsDataURL\<close> reads from it, and the load is taken to complete before the next
  event is handled.
\<close>

definition handleFileUpload :: "string option \<Rightarrow> App \<Rightarrow> App" where
  "handleFileUpload file s =
     (case file of None \<Rightarrow> s | Some result \<Rightarrow> reader_onload result s)"

subsection \<open>\<^verbatim>\<open>App.tsx\<close>: \<^verbatim>\<open>handleStyleSelect\<close>\<close>

text \<open>Lines 62 to 68: up to the \<^verbatim>\<open>await\<close>.\<close>

definition handleStyleSelect ::
  "DesignStyle \<Rightarrow> nat \<Rightarrow> App \<Rightarrow> App \<times> (Request \<times> Continuation) option" where
  "handleStyleSelect style now s =
     (case originalImage s of
        None \<Rightarrow> (s, None)
      | Some img \<Rightarrow>
          if falsy img then (s, None)
          else
            (appendTurn (modelTurn now (''Generating '' @ name style @ '' design...''))
               (s\<lparr>isGenerating := True\<rparr>),
             Some (GenerateReimaginedImage img (prompt style), StyleAwaitImage style)))"

text \<open>Lines 69 to 75: after the \<^verbatim>\<open>await\<close>, with the outcome of the generation request.\<close>

definition handleStyleSelect_resume :: "DesignStyle \<Rightarrow> error + string \<Rightarrow> nat \<Rightarrow> App \<Rightarrow> App" where
  "handleStyleSelect_resume style outcome now s =
     (case outcome of
        Inr result \<Rightarrow>
          (appendTurn
             (modelTurn now (''Here is a '' @ name style @ '' take on your room! Use the slider to compare. You can refine this further by chatting with me below.''))
             (s\<lparr>generatedImage := Some result\<rparr>))
          \<lparr>isGenerating := False\<rparr>
      | Inl e \<Rightarrow>
          (appendTurn
             (modelTurn now ''Sorry, I had trouble generating that image. Please try again.'')
             s)
          \<lparr>isGenerating := False\<rparr>)"

subsection \<open>\<^verbatim>\<open>App.tsx\<close>: \<^verbatim>\<open>handleSendMessage\<close>\<close>

text \<open>
  Lines 79 to 96: up to the first \<^verbatim>\<open>await\<close>. \<open>now\<close> and \<open>now'\<close> are the two readings of
  \<^verbatim>\<open>Date.now()\<close> in the branch without an image (the second one is incremented); the
  other branch reads the clock once. \<^verbatim>\<open>sendMessageToAdvisor\<close> is called with the
  \<^verbatim>\<open>chatHistory\<close> of this render, which does not hold the user's turn yet.
\<close>

definition handleSendMessage ::
  "nat \<Rightarrow> nat \<Rightarrow> App \<Rightarrow> App \<times> (Request \<times> Continuation) option" where
  "handleSendMessage now now' s =
     (if falsy (trim (chatInput s)) then (s, None)
      else if \<not> truthy (originalImage s) then
        ((s\<lparr>chatHistory := chatHistory s @
              [userTurn now (chatInput s),
               modelTurn (now' + 1) ''Please upload an image of your room first so I can help you design it!'']\<rparr>)
           \<lparr>chatInput := []\<rparr>,
         None)
      else
        (let userMsg = userTurn now (chatInput s);
             (session, request) =
               sendMessageToAdvisor_start (msg_text userMsg) (chatHistory s) (chatSession s)
         in ((appendTurn userMsg s)
               \<lparr>chatInput := [], isChatLoading := True, chatSession := session\<rparr>,
             Some (request, ChatAwaitReply (case originalImage s of Some img \<Rightarrow> img | None \<Rightarrow> [])))))"

text \<open>
  Lines 96 to 127, from the first \<^verbatim>\<open>await\<close> to the second or to the end. \<open>img\<close> is the
  \<^verbatim>\<open>originalImage\<close> the handler closed over. A failed chat request runs \<^verbatim>\<open>catch\<close> and
  \<^verbatim>\<open>finally\<close>. \<open>updateRoomDesignCall\<close> is the test of line 98,
  \<^verbatim>\<open>response.toolCall && response.toolCall.name === 'updateRoomDesign'\<close>, giving the call
  when it holds.
\<close>

definition updateRoomDesignCall :: "ChatResponse \<Rightarrow> ToolCall option" where
  "updateRoomDesignCall reply =
     (case toolCall reply of
        None \<Rightarrow> None
      | Some tc \<Rightarrow> if tool_name tc = ''updateRoomDesign'' then Some tc else None)"

definition handleSendMessage_reply ::
  "string \<Rightarrow> error + SdkResult \<Rightarrow> nat \<Rightarrow> App \<Rightarrow> App \<times> (Request \<times> Continuation) option" where
  "handleSendMessage_reply img outcome now s =
     (case sendMessageToAdvisor_result outcome of
        Inl e \<Rightarrow>
          ((appendTurn (errorTurn now ''I encountered an error. Please try again.'') s)
             \<lparr>isGenerating := False, isChatLoading := False\<rparr>,
           None)
      | Inr reply \<Rightarrow>
          (case updateRoomDesignCall reply of
             Some tc \<Rightarrow>
               (let description = visualDescription (args tc) in
                  ((appendTurn
                      (modelTurn now (''Sure! I'm updating the design: \"'' @ description @ ''\"''))
                      s)
                     \<lparr>isGenerating := True\<rparr>,
                   Some (GenerateReimaginedImage img description, ChatAwaitImage)))
           | None \<Rightarrow>
               (case reply_text reply of
                  None \<Rightarrow> (s\<lparr>isChatLoading := False\<rparr>, None)
                | Some t \<Rightarrow>
                    if falsy t then (s\<lparr>isChatLoading := False\<rparr>, None)
                    else ((appendTurn (modelTurn now t) s)\<lparr>isChatLoading := False\<rparr>, None))))"

text \<open>Lines 113 to 127: after the second \<^verbatim>\<open>await\<close>, with the outcome of the generation request.\<close>

definition handleSendMessage_image :: "error + string \<Rightarrow> nat \<Rightarrow> App \<Rightarrow> App" where
  "handleSendMessage_image outcome now s =
     (case outcome of
        Inr newImage \<Rightarrow>
          (appendTurn
             (modelTurn now ''I've updated the visualization based on your request. How does that look?'')
             (s\<lparr>generatedImage := Some newImage, isGenerating := False\<rparr>))
          \<lparr>isChatLoading := False\<rparr>
      | Inl e \<Rightarrow>
          (appendTurn (errorTurn now ''I encountered an error. Please try again.'') s)
          \<lparr>isGenerating := False, isChatLoading := False\<rparr>)"

subsection \<open>\<^verbatim>\<open>App.tsx\<close>: what the rendered controls allow\<close>

text \<open>
  The \<^verbatim>\<open>disabled\<close> attributes of the JSX: the style buttons (line 224), the chat input
  (line 285) and the send button (line 290).
\<close>

definition styleButton_disabled :: "App \<Rightarrow> bool" where
  "styleButton_disabled s = isGenerating s"

definition chatInput_disabled :: "App \<Rightarrow> bool" where
  "chatInput_disabled s = (isChatLoading s \<or> isGenerating s)"

definition sendButton_disabled :: "App \<Rightarrow> bool" where
  "sendButton_disabled s = (falsy (trim (chatInput s)) \<or> isChatLoading s \<or> isGenerating s)"

text \<open>
  The file input is rendered while there is no \<^verbatim>\<open>originalImage\<close> (line 168); the Start Over
  button (line 156), the style buttons and the chat panel (hidden by its class otherwise,
  line 239) while there is one.
\<close>

definition sessionActive :: "App \<Rightarrow> bool" where
  "sessionActive s = truthy (originalImage s)"

subsection \<open>The event loop\<close>

text \<open>
  The program between two events: the state, the requests that have not settled yet with
  their continuations, and every request issued so far. A request is named by its
  position in \<open>issued\<close>.
\<close>

record Machine =
  app :: App
  inflight :: "(nat \<times> Continuation) list"
  issued :: "Request list"

definition initialMachine :: Machine where
  "initialMachine = \<lparr>app = initialApp, inflight = [], issued = []\<rparr>"

definition issue :: "App \<times> (Request \<times> Continuation) option \<Rightarrow> Machine \<Rightarrow> Machine" where
  "issue r m =
     (case snd r of
        None \<Rightarrow> m\<lparr>app := fst r\<rparr>
      | Some (req, k) \<Rightarrow>
          m\<lparr>app := fst r,
            inflight := inflight m @ [(length (issued m), k)],
            issued := issued m @ [req]\<rparr>)"

definition settle :: "nat \<Rightarrow> Machine \<Rightarrow> Machine" where
  "settle rid m = m\<lparr>inflight := filter (\<lambda>p. fst p \<noteq> rid) (inflight m)\<rparr>"

text \<open>
  The events: the user's actions on the rendered controls, and the settling of a request
  in flight (with the clock reading of the handler segment it resumes).
\<close>

datatype Event =
    FileChange "string option"
  | StartOverClick
  | StyleClick DesignStyle nat
  | InputChange string
  | SendClick nat nat
  | EnterKey nat nat
  | ImageSettled nat "error + string" nat
  | ReplySettled nat "error + SdkResult" nat

text \<open>
  An event on a control that is not rendered or is disabled, and the settling of a
  request that is not in flight, change nothing. \<^verbatim>\<open>handleKeyDown\<close> calls
  \<^verbatim>\<open>handleSendMessage\<close> on Enter in the chat input, whatever the input holds.
\<close>

fun dispatch :: "Event \<Rightarrow> Machine \<Rightarrow> Machine" where
  "dispatch (FileChange file) m =
     (if sessionActive (app m) then m else m\<lparr>app := handleFileUpload file (app m)\<rparr>)"
| "dispatch StartOverClick m =
     (if sessionActive (app m) then m\<lparr>app := (app m)\<lparr>originalImage := None\<rparr>\<rparr> else m)"
| "dispatch (StyleClick style now) m =
     (if sessionActive (app m) \<and> style \<in> set STYLES \<and> \<not> styleButton_disabled (app m)
      then issue (handleStyleSelect style now (app m)) m else m)"
| "dispatch (InputChange v) m =
     (if sessionActive (app m) \<and> \<not> chatInput_disabled (app m)
      then m\<lparr>app := (app m)\<lparr>chatInput := v\<rparr>\<rparr> else m)"
| "dispatch (SendClick now now') m =
     (if sessionActive (app m) \<and> \<not> sendButton_disabled (app m)
      then issue (handleSendMessage now now' (app m)) m else m)"
| "dispatch (EnterKey now now') m =
     (if sessionActive (app m) \<and> \<not> chatInput_disabled (app m)
      then issue (handleSendMessage now now' (app m)) m else m)"
| "dispatch (ImageSettled rid outcome now) m =
     (case map_of (inflight m) rid of
        Some (StyleAwaitImage style) \<Rightarrow>
          (settle rid m)\<lparr>app := handleStyleSelect_resume style outcome now (app m)\<rparr>
      | Some ChatAwaitImage \<Rightarrow>
          (settle rid m)\<lparr>app := handleSendMessage_image outcome now (app m)\<rparr>
      | _ \<Rightarrow> m)"
| "dispatch (ReplySettled rid outcome now) m =
     (case map_of (inflight m) rid of
        Some (ChatAwaitReply img) \<Rightarrow>
          issue (handleSendMessage_reply img outcome now (app m)) (settle rid m)
      | _ \<Rightarrow> m)"

fun run :: "Event list \<Rightarrow> Machine \<Rightarrow> Machine" where
  "run [] m = m"
| "run (e # es) m = run es (dispatch e m)"

text \<open>The generation requests that have not settled.\<close>

fun awaitsImage :: "Continuation \<Rightarrow> bool" where
  "awaitsImage (StyleAwaitImage style) = True"
| "awaitsImage ChatAwaitImage = True"
| "awaitsImage (ChatAwaitReply img) = False"

definition outstandingGenerations :: "Machine \<Rightarrow> nat list" where
  "outstandingGenerations m = map fst (filter (\<lambda>p. awaitsImage (snd p)) (inflight m))"

subsection \<open>\<^verbatim>\<open>CompareSlider.tsx\<close>\<close>

text \<open>
  A JavaScript number is a real number or one of the three values a division by zero
  yields. Rounding and overflow of doubles are not modelled; coordinates and widths are
  finite, and the sign of zero is not tracked (a width is never negative).
\<close>

datatype JSNumber = Finite real | NaN | PosInfinity | NegInfinity

definition js_divide :: "real \<Rightarrow> real \<Rightarrow> JSNumber" where
  "js_divide x y =
     (if y \<noteq> 0 then Finite (x / y)
      else if x = 0 then NaN
      else if 0 < x then PosInfinity
      else NegInfinity)"

definition js_times :: "JSNumber \<Rightarrow> real \<Rightarrow> JSNumber" where
  "js_times a k =
     (case a of
        Finite v \<Rightarrow> Finite (v * k)
      | NaN \<Rightarrow> NaN
      | PosInfinity \<Rightarrow> (if k = 0 then NaN else if 0 < k then PosInfinity else NegInfinity)
      | NegInfinity \<Rightarrow> (if k = 0 then NaN else if 0 < k then NegInfinity else PosInfinity))"

text \<open>The two fields of \<^verbatim>\<open>getBoundingClientRect()\<close> that \<^verbatim>\<open>handleMove\<close> reads.\<close>

record DOMRect =
  left :: real
  width :: real

record CompareSlider =
  sliderPosition :: JSNumber
  isDragging :: bool

definition initialSlider :: CompareSlider where
  "initialSlider = \<lparr>sliderPosition = Finite 50, isDragging = False\<rparr>"

text \<open>
  \<^verbatim>\<open>handleMove\<close>, lines 15 to 22; \<open>container\<close> is the bounding rectangle of
  \<^verbatim>\<open>containerRef.current\<close> at the time of the call, \<open>None\<close> when the ref is null.
\<close>

definition handleMove :: "real \<Rightarrow> DOMRect option \<Rightarrow> CompareSlider \<Rightarrow> CompareSlider" where
  "handleMove clientX container s =
     (case container of
        None \<Rightarrow> s
      | Some rect \<Rightarrow>
          (let x = max 0 (min (clientX - left rect) (width rect));
               percent = js_times (js_divide x (width rect)) 100
           in s\<lparr>sliderPosition := percent\<rparr>))"

text \<open>
  The pointer events. The window listeners exist while \<^verbatim>\<open>isDragging\<close> holds (lines 30 to
  51), so a move is handled only then. A touch move reads \<^verbatim>\<open>e.touches[0].clientX\<close>: with
  no touch point the listener throws and the state stays as it is.
\<close>

datatype SliderEvent =
    MouseDown
  | TouchStart
  | MouseUp
  | TouchEnd
  | MouseMove real "DOMRect option"
  | TouchMove "real list" "DOMRect option"

fun slide :: "SliderEvent \<Rightarrow> CompareSlider \<Rightarrow> CompareSlider" where
  "slide MouseDown s = s\<lparr>isDragging := True\<rparr>"
| "slide TouchStart s = s\<lparr>isDragging := True\<rparr>"
| "slide MouseUp s = (if isDragging s then s\<lparr>isDragging := False\<rparr> else s)"
| "slide TouchEnd s = (if isDragging s then s\<lparr>isDragging := False\<rparr> else s)"
| "slide (MouseMove clientX container) s =
     (if isDragging s then handleMove clientX container s else s)"
| "slide (TouchMove touches container) s =
     (if isDragging s
      then (case touches of [] \<Rightarrow> s | clientX # others \<Rightarrow> handleMove clientX container s)
      else s)"

fun drag :: "SliderEvent list \<Rightarrow> CompareSlider \<Rightarrow> CompareSlider" where
  "drag [] s = s"
| "drag (e # es) s = drag es (slide e s)"

text \<open>A divider position is a number between 0 and 100.\<close>

definition inRange :: "JSNumber \<Rightarrow> bool" where
  "inRange p = (case p of Finite v \<Rightarrow> 0 \<le> v \<and> v \<le> 100 | _ \<Rightarrow> False)"

subsection \<open>Vocabulary of the properties\<close>

text \<open>
  A request is \<open>fromImage a\<close> when it is not a generation request or its source image is
  \<open>a\<close>. A continuation is \<open>startedOn a\<close> when it does not wait for a chat reply or the
  \<^verbatim>\<open>originalImage\<close> it closed over is \<open>a\<close>. A \<open>sessionEvent\<close> is any event but the two that
  end or start a session: Start Over and a file upload.
\<close>

definition fromImage :: "string \<Rightarrow> Request \<Rightarrow> bool" where
  "fromImage a r = (case r of GenerateReimaginedImage src p \<Rightarrow> src = a | SendMessage t \<Rightarrow> True)"

definition startedOn :: "string \<Rightarrow> Continuation \<Rightarrow> bool" where
  "startedOn a k =
     (case k of
        ChatAwaitReply img \<Rightarrow> img = a
      | StyleAwaitImage style \<Rightarrow> True
      | ChatAwaitImage \<Rightarrow> True)"

fun sessionEvent :: "Event \<Rightarrow> bool" where
  "sessionEvent (FileChange upload) = False"
| "sessionEvent StartOverClick = False"
| "sessionEvent e = True"

text \<open>
  The invariant of a session on the image \<open>a\<close>, counted from the \<open>n\<close>-th request on: the
  state holds \<open>a\<close>, every pending chat handler closed over \<open>a\<close>, and every generation
  request issued since was made from \<open>a\<close>.
\<close>

definition grounded :: "string \<Rightarrow> nat \<Rightarrow> Machine \<Rightarrow> bool" where
  "grounded a n m =
     (originalImage (app m) = Some a \<and> list_all (startedOn a) (map snd (inflight m))
      \<and> list_all (fromImage a) (drop n (issued m)) \<and> n \<le> length (issued m))"

text \<open>A move event is \<open>laidOut\<close> when the container it reports has a positive width.\<close>

fun laidOut :: "SliderEvent \<Rightarrow> bool" where
  "laidOut (MouseMove clientX (Some rect)) = (0 < width rect)"
| "laidOut (TouchMove touches (Some rect)) = (0 < width rect)"
| "laidOut e = True"

subsection \<open>Example inputs\<close>

definition modern :: DesignStyle where
  "modern = hd STYLES"

text \<open>A reply of the chat model that calls \<^verbatim>\<open>updateRoomDesign\<close>, and one that calls another tool.\<close>

definition designReply :: "string \<Rightarrow> SdkResult" where
  "designReply d =
     \<lparr>functionCalls = Some [\<lparr>tool_name = ''updateRoomDesign'', args = \<lparr>visualDescription = d\<rparr>\<rparr>],
      response = None\<rparr>"

definition otherReply :: SdkResult where
  "otherReply =
     \<lparr>functionCalls = Some [\<lparr>tool_name = ''orderFurniture'', args = \<lparr>visualDescription = ''a sofa''\<rparr>\<rparr>],
      response = None\<rparr>"

text \<open>A session on the image A with the render B, and a message typed into the chat input.\<close>

definition makeBlue :: Machine where
  "makeBlue =
     \<lparr>app = initialApp\<lparr>originalImage := Some ''A'', generatedImage := Some ''B'',
                        chatInput := ''make the walls blue''\<rparr>,
      inflight = [], issued = []\<rparr>"

text \<open>The image A was uploaded and the Modern style was clicked; its request is in flight.\<close>

definition styleInFlight :: Machine where
  "styleInFlight = run [FileChange (Some ''A''), StyleClick modern 1] initialMachine"

text \<open>The image A was uploaded and a message was sent; the chat request is in flight.\<close>

definition chatInFlight :: Machine where
  "chatInFlight =
     run [FileChange (Some ''A''), InputChange ''make the walls blue'', SendClick 1 1] initialMachine"

text \<open>No image, and one space typed into the chat input.\<close>

definition spaceTyped :: App where
  "spaceTyped = initialApp\<lparr>chatInput := '' ''\<rparr>"

text \<open>No image, and a message typed into the chat input.\<close>

definition helloTyped :: App where
  "helloTyped = initialApp\<lparr>chatInput := ''hello''\<rparr>"

text \<open>A space, a tab and a no-break space typed into the chat input of a session.\<close>

definition blanksTyped :: App where
  "blanksTyped =
     initialApp\<lparr>originalImage := Some ''A'', chatInput := [CHR 0x20, CHR 0x09, CHR 0xA0]\<rparr>"

section \<open>Properties\<close>

lemmas handler_defs =
  handleFileUpload_def reader_onload_def handleStyleSelect_def handleStyleSelect_resume_def
  handleSendMessage_def handleSendMessage_reply_def handleSendMessage_image_def
  sendMessageToAdvisor_start_def sendMessageToAdvisor_result_def updateRoomDesignCall_def
  appendTurn_def Let_def

lemmas ui_defs =
  sessionActive_def styleButton_disabled_def chatInput_disabled_def sendButton_disabled_def
  truthy_def falsy_def trim_def isWhiteSpace_def

lemmas machine_defs = initialMachine_def initialApp_def issue_def settle_def

subsection \<open>Starting a session\<close>

text \<open>
  Claim C8. Uploading a photo produces a fresh state: \<^verbatim>\<open>originalImage\<close> is the new image,
  the turn history is exactly the one welcome turn of the assistant, \<^verbatim>\<open>generatedImage\<close> is
  absent and the chat session is discarded. The session is created again by the first
  message sent afterwards, from the history of the new session (the welcome turn), and
  that message is the first one sent through it.
\<close>

theorem upload_starts_fresh_session:
  "originalImage (handleFileUpload (Some img) s) = Some img
   \<and> chatHistory (handleFileUpload (Some img) s) = [welcomeTurn]
   \<and> role welcomeTurn = Model
   \<and> generatedImage (handleFileUpload (Some img) s) = None
   \<and> chatSession (handleFileUpload (Some img) s) = None
   \<and> (img \<noteq> [] \<and> \<not> falsy (trim t) \<longrightarrow>
        chatSession (fst (handleSendMessage now now' ((handleFileUpload (Some img) s)\<lparr>chatInput := t\<rparr>)))
          = Some \<lparr>created_history = [(Model, msg_text welcomeTurn)], sent = [t]\<rparr>)"
  by (simp add: handler_defs welcomeTurn_def truthy_def userTurn_def)

theorem upload_starts_fresh_session_witness:
  "''A'' \<noteq> [] \<and> \<not> falsy (trim ''make it cosy'')
   \<and> originalImage (handleFileUpload (Some ''A'') (app styleInFlight)) = Some ''A''
   \<and> chatHistory (handleFileUpload (Some ''A'') (app styleInFlight)) = [welcomeTurn]
   \<and> generatedImage (handleFileUpload (Some ''A'') (app styleInFlight)) = None
   \<and> chatSession (handleFileUpload (Some ''A'') (app styleInFlight)) = None
   \<and> chatSession (fst (handleSendMessage 3 3
          ((handleFileUpload (Some ''A'') (app styleInFlight))\<lparr>chatInput := ''make it cosy''\<rparr>)))
        = Some \<lparr>created_history = [(Model, msg_text welcomeTurn)], sent = [''make it cosy'']\<rparr>"
proof -
  have t: "\<not> falsy (trim ''make it cosy'')"
    by (simp add: falsy_def trim_def isWhiteSpace_def)
  show ?thesis
    using t upload_starts_fresh_session [of "''A''" "app styleInFlight" "''make it cosy''" 3 3]
    by simp
qed

subsection \<open>Blank input\<close>

lemma trim_blank: "list_all isWhiteSpace t \<Longrightarrow> trim t = []"
  by (induction t) (simp_all add: trim_def)

text \<open>
  Claim C10. When the chat input is empty or holds only whitespace, \<^verbatim>\<open>handleSendMessage\<close>
  returns at once: the whole state (turn history, render, busy flags, input) is as
  before and no request is issued, with or without a session. So pressing Enter in the
  input changes nothing, and neither does a click on the (disabled) send button.
\<close>

theorem blank_input_noop:
  assumes "list_all isWhiteSpace (chatInput (app m))"
  shows "handleSendMessage now now' (app m) = (app m, None)
    \<and> dispatch (EnterKey now now') m = m
    \<and> dispatch (SendClick now now') m = m"
proof -
  have "handleSendMessage now now' (app m) = (app m, None)"
    using assms by (simp add: handleSendMessage_def trim_blank falsy_def)
  then show ?thesis
    by (simp add: issue_def)
qed

theorem blank_input_noop_witness:
  "list_all isWhiteSpace (chatInput (app \<lparr>app = blanksTyped, inflight = [], issued = []\<rparr>))
   \<and> list_all isWhiteSpace (chatInput (app initialMachine))
   \<and> handleSendMessage 1 2 blanksTyped = (blanksTyped, None)
   \<and> handleSendMessage 1 2 initialApp = (initialApp, None)
   \<and> dispatch (EnterKey 1 2) \<lparr>app = blanksTyped, inflight = [], issued = []\<rparr>
        = \<lparr>app = blanksTyped, inflight = [], issued = []\<rparr>"
proof -
  have a: "list_all isWhiteSpace (chatInput (app \<lparr>app = blanksTyped, inflight = [], issued = []\<rparr>))"
    and b: "list_all isWhiteSpace (chatInput (app initialMachine))"
    by (simp_all add: blanksTyped_def initialMachine_def initialApp_def isWhiteSpace_def)
  show ?thesis
    using a b blank_input_noop [OF a, of 1 2] blank_input_noop [OF b, of 1 2]
    by (simp add: initialMachine_def)
qed

subsection \<open>A message without a session\<close>

text \<open>
  Claim C7, as stated, fails: a text of one space is not empty, yet with no image
  \<^verbatim>\<open>handleSendMessage\<close> appends no turn at all, because line 79 returns on a text that is
  empty after trimming.
\<close>

theorem space_message_appends_nothing:
  "chatInput spaceTyped \<noteq> [] \<and> originalImage spaceTyped = None
   \<and> chatHistory (fst (handleSendMessage 1 2 spaceTyped)) = chatHistory spaceTyped
   \<and> chatHistory spaceTyped = []"
  by (simp add: spaceTyped_def initialApp_def handleSendMessage_def ui_defs)

text \<open>
  Claim C7, amended. For every text that is not empty after trimming whitespace,
  \<^verbatim>\<open>handleSendMessage\<close> without an \<^verbatim>\<open>originalImage\<close> issues no request (neither collaborator
  is contacted) and appends exactly two turns, the user's turn with the text as typed and
  then the assistant's request to upload a photo; it clears the input and changes
  nothing else.
\<close>

theorem no_session_message_two_turns:
  assumes "\<not> falsy (trim (chatInput s))" and "\<not> truthy (originalImage s)"
  shows "handleSendMessage now now' s =
     (s\<lparr>chatHistory := chatHistory s @
           [\<lparr>msg_id = toString now, role = User, msg_text = chatInput s, isError = None\<rparr>,
            \<lparr>msg_id = toString (now' + 1), role = Model,
             msg_text = ''Please upload an image of your room first so I can help you design it!'',
             isError = None\<rparr>],
         chatInput := []\<rparr>,
      None)"
  using assms by (simp add: handleSendMessage_def userTurn_def modelTurn_def)

theorem no_session_message_two_turns_witness:
  "\<not> falsy (trim (chatInput helloTyped)) \<and> \<not> truthy (originalImage helloTyped)
   \<and> handleSendMessage 5 6 helloTyped =
       (initialApp\<lparr>chatHistory :=
           [\<lparr>msg_id = ''5'', role = User, msg_text = ''hello'', isError = None\<rparr>,
            \<lparr>msg_id = ''7'', role = Model,
             msg_text = ''Please upload an image of your room first so I can help you design it!'',
             isError = None\<rparr>]\<rparr>,
        None)"
proof -
  have a: "\<not> falsy (trim (chatInput helloTyped))"
    and b: "\<not> truthy (originalImage helloTyped)"
    by (simp_all add: helloTyped_def initialApp_def ui_defs)
  have ids: "toString 5 = ''5''" "toString 7 = ''7''"
    by (simp_all add: toString.simps digit_def)
  show ?thesis
    using a b ids no_session_message_two_turns [OF a b, of 5 6]
    by (simp add: helloTyped_def initialApp_def)
qed

subsection \<open>A failed style request\<close>

text \<open>
  Claim C6. When the generation request of \<^verbatim>\<open>handleStyleSelect\<close> fails, \<^verbatim>\<open>generatedImage\<close>
  is what it was: the segment after the \<^verbatim>\<open>await\<close> leaves it as it finds it, and so does
  the whole call (start, then failure), whatever the value before the call, absent
  included.
\<close>

theorem style_failure_keeps_generatedImage:
  "generatedImage (handleStyleSelect_resume style (Inl e) now' s) = generatedImage s
   \<and> generatedImage
        (handleStyleSelect_resume style (Inl e) now' (fst (handleStyleSelect style now s)))
      = generatedImage s"
  by (simp add: handleStyleSelect_resume_def handleStyleSelect_def appendTurn_def
      split: option.splits)

text \<open>
  Claim C5 does not hold of the code. When the generation request of
  \<^verbatim>\<open>handleStyleSelect\<close> fails, one turn is appended and \<^verbatim>\<open>isGenerating\<close> is false afterwards,
  but the turn (line 72) carries no \<^verbatim>\<open>isError\<close>: the turns flagged \<^verbatim>\<open>isError = true\<close> are
  those of before.
\<close>

theorem style_failure_turn_not_flagged:
  "chatHistory (handleStyleSelect_resume style (Inl e) now s)
     = chatHistory s @
       [\<lparr>msg_id = toString now, role = Model,
         msg_text = ''Sorry, I had trouble generating that image. Please try again.'',
         isError = None\<rparr>]
   \<and> filter (\<lambda>m. isError m = Some True) (chatHistory (handleStyleSelect_resume style (Inl e) now s))
     = filter (\<lambda>m. isError m = Some True) (chatHistory s)
   \<and> isGenerating (handleStyleSelect_resume style (Inl e) now s) = False"
  by (simp add: handleStyleSelect_resume_def appendTurn_def modelTurn_def)

text \<open>The failure turn of the chat handler, lines 123 and 124, is flagged.\<close>

lemma chat_failure_turn_flagged:
  "chatHistory (handleSendMessage_image (Inl e) now s)
     = chatHistory s @
       [\<lparr>msg_id = toString now, role = Model,
         msg_text = ''I encountered an error. Please try again.'', isError = Some True\<rparr>]"
  by (simp add: handleSendMessage_image_def appendTurn_def errorTurn_def)

subsection \<open>Generation requests are made from the original image\<close>

lemma grounded_issue:
  assumes "grounded a n m" and "originalImage (fst r) = Some a"
    and "case snd r of None \<Rightarrow> True | Some (req, k) \<Rightarrow> fromImage a req \<and> startedOn a k"
  shows "grounded a n (issue r m)"
  using assms by (auto simp: grounded_def issue_def split: option.splits)

lemma grounded_settle: "grounded a n m \<Longrightarrow> grounded a n (settle rid m)"
  by (auto simp: grounded_def settle_def list_all_iff)

lemma grounded_app:
  "grounded a n m \<Longrightarrow> originalImage s' = Some a \<Longrightarrow> grounded a n (m\<lparr>app := s'\<rparr>)"
  by (simp add: grounded_def)

lemma grounded_captured:
  "grounded a n m \<Longrightarrow> map_of (inflight m) rid = Some (ChatAwaitReply img) \<Longrightarrow> img = a"
  by (auto simp: grounded_def list_all_iff startedOn_def dest!: map_of_SomeD)

lemma handleStyleSelect_grounded:
  "originalImage s = Some a \<Longrightarrow>
   originalImage (fst (handleStyleSelect style now s)) = Some a \<and>
   (case snd (handleStyleSelect style now s) of
      None \<Rightarrow> True
    | Some (req, k) \<Rightarrow> fromImage a req \<and> startedOn a k)"
  by (simp add: handleStyleSelect_def appendTurn_def fromImage_def startedOn_def)

lemma handleSendMessage_grounded:
  "originalImage s = Some a \<Longrightarrow>
   originalImage (fst (handleSendMessage now now' s)) = Some a \<and>
   (case snd (handleSendMessage now now' s) of
      None \<Rightarrow> True
    | Some (req, k) \<Rightarrow> fromImage a req \<and> startedOn a k)"
  by (simp add: handleSendMessage_def sendMessageToAdvisor_start_def appendTurn_def
      fromImage_def startedOn_def Let_def)

lemma handleSendMessage_reply_grounded:
  "originalImage s = Some a \<Longrightarrow>
   originalImage (fst (handleSendMessage_reply a outcome now s)) = Some a \<and>
   (case snd (handleSendMessage_reply a outcome now s) of
      None \<Rightarrow> True
    | Some (req, k) \<Rightarrow> fromImage a req \<and> startedOn a k)"
  by (simp add: handleSendMessage_reply_def appendTurn_def fromImage_def startedOn_def Let_def
      split: sum.splits option.splits)

lemma resume_originalImage:
  "originalImage (handleStyleSelect_resume style outcome now s) = originalImage s"
  "originalImage (handleSendMessage_image outcome now s) = originalImage s"
  by (simp_all add: handleStyleSelect_resume_def handleSendMessage_image_def appendTurn_def
      split: sum.splits)

lemma settle_app: "app (settle rid m) = app m"
  by (simp add: settle_def)

lemma grounded_dispatch:
  assumes "sessionEvent e" and "grounded a n m"
  shows "grounded a n (dispatch e m)"
proof -
  have orig: "originalImage (app m) = Some a"
    using assms(2) by (simp add: grounded_def)
  show ?thesis
  proof (cases e)
    case (FileChange upload)
    with assms(1) show ?thesis by simp
  next
    case StartOverClick
    with assms(1) show ?thesis by simp
  next
    case (StyleClick style now)
    then show ?thesis
      using assms(2) handleStyleSelect_grounded [OF orig, of style now]
      by (simp add: grounded_issue)
  next
    case (InputChange v)
    then show ?thesis
      using assms(2) orig by (simp add: grounded_app)
  next
    case (SendClick now now')
    then show ?thesis
      using assms(2) handleSendMessage_grounded [OF orig, of now now']
      by (simp add: grounded_issue)
  next
    case (EnterKey now now')
    then show ?thesis
      using assms(2) handleSendMessage_grounded [OF orig, of now now']
      by (simp add: grounded_issue)
  next
    case (ImageSettled rid outcome now)
    then show ?thesis
      using assms(2) orig
      by (auto simp: resume_originalImage settle_app intro!: grounded_app grounded_settle
          split: option.splits Continuation.splits)
  next
    case (ReplySettled rid outcome now)
    show ?thesis
    proof (cases "map_of (inflight m) rid")
      case None
      with ReplySettled assms(2) show ?thesis by simp
    next
      case (Some k)
      show ?thesis
      proof (cases k)
        case (ChatAwaitReply img)
        have img: "img = a"
          using grounded_captured [OF assms(2)] Some ChatAwaitReply by simp
        have "grounded a n (issue (handleSendMessage_reply a outcome now (app m)) (settle rid m))"
          using handleSendMessage_reply_grounded [OF orig, of outcome now]
          by (intro grounded_issue grounded_settle assms(2)) simp_all
        with ReplySettled Some ChatAwaitReply img show ?thesis by simp
      qed (use ReplySettled Some assms(2) in simp_all)
    qed
  qed
qed

lemma grounded_run:
  "list_all sessionEvent es \<Longrightarrow> grounded a n m \<Longrightarrow> grounded a n (run es m)"
  by (induction es arbitrary: m) (simp_all add: grounded_dispatch)

text \<open>
  Claim C2. Within a session on the image \<open>a\<close> (the state holds \<open>a\<close> as \<^verbatim>\<open>originalImage\<close>,
  the chat requests in flight were sent in this session, and no event ends the session),
  every generation request issued, by a style click or by a visual edit of the chat and
  after any number of events, has \<open>a\<close> as its source image, whatever \<^verbatim>\<open>generatedImage\<close>
  holds.
\<close>

theorem generation_from_originalImage:
  assumes "originalImage (app m) = Some a"
    and "list_all (startedOn a) (map snd (inflight m))"
    and "list_all sessionEvent es"
  shows "list_all (fromImage a) (drop (length (issued m)) (issued (run es m)))"
proof -
  have "grounded a (length (issued m)) m"
    using assms(1,2) by (simp add: grounded_def)
  from grounded_run [OF assms(3) this] show ?thesis
    by (simp add: grounded_def)
qed

theorem generation_from_originalImage_witness:
  "originalImage (app makeBlue) = Some ''A''
   \<and> generatedImage (app makeBlue) = Some ''B''
   \<and> list_all (startedOn ''A'') (map snd (inflight makeBlue))
   \<and> list_all sessionEvent [SendClick 1 1, ReplySettled 0 (Inr (designReply ''blue walls'')) 2]
   \<and> list_all (fromImage ''A'')
        (drop (length (issued makeBlue))
           (issued (run [SendClick 1 1, ReplySettled 0 (Inr (designReply ''blue walls'')) 2] makeBlue)))"
proof -
  have a: "originalImage (app makeBlue) = Some ''A''"
    and b: "list_all (startedOn ''A'') (map snd (inflight makeBlue))"
    and g: "generatedImage (app makeBlue) = Some ''B''"
    by (simp_all add: makeBlue_def initialApp_def)
  have c: "list_all sessionEvent [SendClick 1 1, ReplySettled 0 (Inr (designReply ''blue walls'')) 2]"
    by simp
  show ?thesis
    using a b c g generation_from_originalImage [OF a b c] by simp
qed

text \<open>The requests of that run: the chat message, then the generation from A.\<close>

lemma makeBlue_requests:
  "issued (run [SendClick 1 1, ReplySettled 0 (Inr (designReply ''blue walls'')) 2] makeBlue)
     = [SendMessage ''make the walls blue'', GenerateReimaginedImage ''A'' ''blue walls'']"
  by (simp add: makeBlue_def designReply_def handler_defs ui_defs machine_defs userTurn_def)

text \<open>
  The hypothesis on the chat requests in flight cannot be dropped. A chat request sent
  in the session on A and answered after the user has started over and uploaded C issues
  its generation request from A, the \<^verbatim>\<open>originalImage\<close> of the closure of line 113.
\<close>

lemma earlier_session_chat_request:
  "originalImage (app (run [StartOverClick, FileChange (Some ''C''),
        ReplySettled 0 (Inr (designReply ''blue walls'')) 2] chatInFlight)) = Some ''C''
   \<and> issued (run [StartOverClick, FileChange (Some ''C''),
        ReplySettled 0 (Inr (designReply ''blue walls'')) 2] chatInFlight)
     = [SendMessage ''make the walls blue'', GenerateReimaginedImage ''A'' ''blue walls'']"
  by (simp add: chatInFlight_def designReply_def handler_defs ui_defs machine_defs userTurn_def)

subsection \<open>A result that arrives after a new session has started\<close>

text \<open>
  Claim C1, as stated, fails. A is uploaded and the Modern style is clicked; before the
  request settles the user starts over and uploads C; the request then resolves with B.
  The state holds C as \<^verbatim>\<open>originalImage\<close> and B as \<^verbatim>\<open>generatedImage\<close>.
\<close>

theorem stale_result_not_discarded:
  "originalImage (app (run [FileChange (Some ''A''), StyleClick modern 1, StartOverClick,
        FileChange (Some ''C''), ImageSettled 0 (Inr ''B'') 2] initialMachine)) = Some ''C''
   \<and> generatedImage (app (run [FileChange (Some ''A''), StyleClick modern 1, StartOverClick,
        FileChange (Some ''C''), ImageSettled 0 (Inr ''B'') 2] initialMachine)) = Some ''B''"
  by (simp add: handler_defs ui_defs machine_defs modern_def STYLES_def)

text \<open>
  Claim C1, amended. If a generation request of a style click or of a visual edit of the
  chat is in flight when the user starts over and uploads a new photo \<open>c\<close>, then when the
  request settles the state holds \<open>c\<close> as \<^verbatim>\<open>originalImage\<close>, and \<^verbatim>\<open>generatedImage\<close> is the
  result of the old request if it succeeded (nothing compares sessions) and absent
  only if it failed.
\<close>

theorem stale_result_applied:
  assumes "map_of (inflight m) rid = Some k" and "awaitsImage k" and "sessionActive (app m)"
  shows "originalImage (app (run [StartOverClick, FileChange (Some c), ImageSettled rid outcome now] m))
      = Some c
    \<and> generatedImage (app (run [StartOverClick, FileChange (Some c), ImageSettled rid outcome now] m))
      = (case outcome of Inr b \<Rightarrow> Some b | Inl e \<Rightarrow> None)"
  using assms
  by (cases k)
    (simp_all add: handler_defs sessionActive_def truthy_def settle_def split: sum.splits)

theorem stale_result_applied_witness:
  "map_of (inflight styleInFlight) 0 = Some (StyleAwaitImage modern)
   \<and> awaitsImage (StyleAwaitImage modern)
   \<and> sessionActive (app styleInFlight)
   \<and> originalImage (app (run [StartOverClick, FileChange (Some ''C''),
        ImageSettled 0 (Inr ''B'') 2] styleInFlight)) = Some ''C''
   \<and> generatedImage (app (run [StartOverClick, FileChange (Some ''C''),
        ImageSettled 0 (Inr ''B'') 2] styleInFlight)) = Some ''B''"
proof -
  have a: "map_of (inflight styleInFlight) 0 = Some (StyleAwaitImage modern)"
    and b: "sessionActive (app styleInFlight)"
    by (simp_all add: styleInFlight_def handler_defs ui_defs machine_defs modern_def STYLES_def)
  have c: "awaitsImage (StyleAwaitImage modern)"
    by simp
  show ?thesis
    using a b c stale_result_applied [OF a c b, of "''C''" "Inr ''B''" 2] by simp
qed

subsection \<open>Two generation requests at once\<close>

text \<open>The chat controls are disabled while either flag is set.\<close>

lemma chat_controls_disabled_while_busy:
  "isGenerating s \<or> isChatLoading s \<Longrightarrow> sendButton_disabled s \<and> chatInput_disabled s"
  by (auto simp: sendButton_disabled_def chatInput_disabled_def)

text \<open>
  Claim C4 does not hold of the code. While the chat request of a session is in flight
  \<^verbatim>\<open>isChatLoading\<close> is true and \<^verbatim>\<open>isGenerating\<close> is false, and the style buttons are enabled
  (line 224 tests \<^verbatim>\<open>isGenerating\<close> only). A style click then issues generation request 1,
  and the chat reply, a call of \<^verbatim>\<open>updateRoomDesign\<close>, issues generation request 2 while
  request 1 has not settled.
\<close>

theorem style_click_while_chat_loading:
  "isChatLoading (app chatInFlight)
   \<and> \<not> isGenerating (app chatInFlight)
   \<and> \<not> styleButton_disabled (app chatInFlight)
   \<and> outstandingGenerations
        (run [StyleClick modern 2, ReplySettled 0 (Inr (designReply ''blue walls'')) 3] chatInFlight)
      = [1, 2]"
  by (simp add: chatInFlight_def handler_defs ui_defs machine_defs modern_def STYLES_def
      designReply_def outstandingGenerations_def)

subsection \<open>Replies the chat handler drops\<close>

lemma advisor_toolCall_no_text:
  "sendMessageToAdvisor_result outcome = Inr reply \<Longrightarrow> toolCall reply = Some tc \<Longrightarrow>
   reply_text reply = None"
  by (auto simp: sendMessageToAdvisor_result_def split: sum.splits option.splits list.splits)

text \<open>
  Claim C9. When the reply \<^verbatim>\<open>sendMessageToAdvisor\<close> returns carries a tool call whose name
  is not \<^verbatim>\<open>updateRoomDesign\<close>, or carries neither a tool call nor a (non-empty) text, the
  chat handler appends no turn and issues no request: it clears \<^verbatim>\<open>isChatLoading\<close> and
  changes nothing else.
\<close>

theorem unhandled_reply_dropped:
  assumes "sendMessageToAdvisor_result outcome = Inr reply"
    and "(\<exists>tc. toolCall reply = Some tc \<and> tool_name tc \<noteq> ''updateRoomDesign'')
         \<or> (toolCall reply = None \<and> \<not> truthy (reply_text reply))"
  shows "handleSendMessage_reply img outcome now s = (s\<lparr>isChatLoading := False\<rparr>, None)"
proof -
  have call: "updateRoomDesignCall reply = None"
    using assms(2) by (auto simp: updateRoomDesignCall_def)
  have "\<not> truthy (reply_text reply)"
    using assms advisor_toolCall_no_text [OF assms(1)] by (auto simp: truthy_def)
  then show ?thesis
    using assms(1) call
    by (simp add: handleSendMessage_reply_def truthy_def falsy_def split: option.splits)
qed

theorem unhandled_reply_dropped_witness:
  "sendMessageToAdvisor_result (Inr otherReply)
     = Inr \<lparr>reply_text = None,
            toolCall = Some \<lparr>tool_name = ''orderFurniture'', args = \<lparr>visualDescription = ''a sofa''\<rparr>\<rparr>\<rparr>
   \<and> ''orderFurniture'' \<noteq> ''updateRoomDesign''
   \<and> handleSendMessage_reply ''A'' (Inr otherReply) 3 (app chatInFlight)
       = ((app chatInFlight)\<lparr>isChatLoading := False\<rparr>, None)
   \<and> sendMessageToAdvisor_result (Inr \<lparr>functionCalls = None, response = Some \<lparr>response_text = None\<rparr>\<rparr>)
       = Inr \<lparr>reply_text = None, toolCall = None\<rparr>
   \<and> handleSendMessage_reply ''A''
         (Inr \<lparr>functionCalls = None, response = Some \<lparr>response_text = None\<rparr>\<rparr>) 3 (app chatInFlight)
       = ((app chatInFlight)\<lparr>isChatLoading := False\<rparr>, None)"
proof -
  have r: "sendMessageToAdvisor_result (Inr otherReply)
     = Inr \<lparr>reply_text = None,
            toolCall = Some \<lparr>tool_name = ''orderFurniture'', args = \<lparr>visualDescription = ''a sofa''\<rparr>\<rparr>\<rparr>"
    by (simp add: sendMessageToAdvisor_result_def otherReply_def)
  have q: "sendMessageToAdvisor_result (Inr \<lparr>functionCalls = None, response = Some \<lparr>response_text = None\<rparr>\<rparr>)
       = Inr \<lparr>reply_text = None, toolCall = None\<rparr>"
    by (simp add: sendMessageToAdvisor_result_def)
  show ?thesis
    using r q unhandled_reply_dropped [OF r, of "''A''" 3 "app chatInFlight"]
      unhandled_reply_dropped [OF q, of "''A''" 3 "app chatInFlight"]
    by (simp add: truthy_def)
qed

subsection \<open>The divider position\<close>

text \<open>
  Claim C3 does not hold of the code. During a drag, a move over a container of width
  zero sets the position to NaN, for every pointer coordinate: the clamped offset is 0
  and line 19 divides it by the width. NaN is not a position between 0 and 100.
\<close>

theorem zero_width_move_NaN:
  "sliderPosition (drag [MouseDown, MouseMove clientX (Some \<lparr>left = l, width = 0\<rparr>)] s) = NaN
   \<and> \<not> inRange NaN"
  by (simp add: handleMove_def js_divide_def js_times_def inRange_def)

text \<open>Over a container of positive width the position stays between 0 and 100.\<close>

lemma handleMove_inRange:
  assumes "0 < width rect"
  shows "inRange (sliderPosition (handleMove clientX (Some rect) s))"
proof -
  define x where "x = max 0 (min (clientX - left rect) (width rect))"
  have "0 \<le> x" and "x \<le> width rect"
    using assms by (simp_all add: x_def)
  then have "0 \<le> x / width rect * 100" and "x / width rect * 100 \<le> 100"
    using assms by (simp_all add: divide_le_eq)
  then show ?thesis
    using assms by (simp add: handleMove_def js_divide_def js_times_def inRange_def Let_def x_def)
qed

lemma slide_inRange:
  "laidOut e \<Longrightarrow> inRange (sliderPosition s) \<Longrightarrow> inRange (sliderPosition (slide e s))"
proof (cases e)
  case (MouseMove clientX container)
  assume "laidOut e" and "inRange (sliderPosition s)"
  with MouseMove show ?thesis
    by (cases container) (simp_all add: handleMove_inRange, simp add: handleMove_def)
next
  case (TouchMove touches container)
  assume "laidOut e" and "inRange (sliderPosition s)"
  with TouchMove show ?thesis
    by (cases container; cases touches)
      (simp_all add: handleMove_inRange, simp_all add: handleMove_def)
qed simp_all

lemma drag_inRange:
  "list_all laidOut es \<Longrightarrow> inRange (sliderPosition s) \<Longrightarrow> inRange (sliderPosition (drag es s))"
  by (induction es arbitrary: s) (simp_all add: slide_inRange)

end
